theory Spec2Isabelle
  imports Main
begin

section \<open>scripts/crop\_assets.py: data\<close>

text \<open>
  Python integers are unbounded, so pixel offsets, dimensions and the padding are
  \<^typ>\<open>int\<close>. A bounding box and a crop rectangle are the 4-tuples
  \<open>(left, top, right, bottom)\<close> that the script reads from \<open>img.getbbox()\<close> and
  passes to \<open>img.crop(...)\<close>.
\<close>

type_synonym box = "int \<times> int \<times> int \<times> int"

text \<open>
  The exceptions that can leave \<open>crop_transparent\<close>. The script catches none of
  them, so each one ends the run.
\<close>

datatype error =
    FileNotFound string
  | DecodeError string
  | CropError box
  | SaveError string

text \<open>
  The image library (PIL) is not part of the repository. Its calls are parameters of
  the model: \<open>'f\<close> is what a file holds on disk, \<open>'img\<close> a decoded image.
  \<^item> \<open>pil_open\<close>: \<open>Image.open(path).convert("RGBA")\<close> on the content of an existing
    file; \<open>None\<close> when the library raises;
  \<^item> \<open>pil_getbbox\<close>: \<open>img.getbbox()\<close>, \<open>None\<close> being Python's \<open>None\<close>;
  \<^item> \<open>pil_size\<close>: \<open>img.size\<close>;
  \<^item> \<open>pil_crop\<close>: \<open>img.crop(box)\<close>; \<open>None\<close> when the library raises;
  \<^item> \<open>pil_save\<close>: what \<open>img.save(path)\<close> writes to \<open>path\<close>; \<open>None\<close> when the
    library raises.
\<close>

record ('f, 'img) pil =
  pil_open :: "'f \<Rightarrow> 'img option"
  pil_getbbox :: "'img \<Rightarrow> box option"
  pil_size :: "'img \<Rightarrow> int \<times> int"
  pil_crop :: "'img \<Rightarrow> box \<Rightarrow> 'img option"
  pil_save :: "'img \<Rightarrow> string \<Rightarrow> 'f option"

text \<open>
  What the script can observe and change: the files on disk, by path, and the lines
  it has printed to standard output.
\<close>

record 'f world =
  files :: "string \<rightharpoonup> 'f"
  stdout :: "string list"

definition print_line :: "string \<Rightarrow> 'f world \<Rightarrow> 'f world" where
  "print_line s w = w\<lparr>stdout := stdout w @ [s]\<rparr>"

definition path_exists :: "'f world \<Rightarrow> string \<Rightarrow> bool" where
  "path_exists w p = (files w p \<noteq> None)"

section \<open>Library functions of Python used by the script\<close>

text \<open>\<open>str(n)\<close> for an integer, as the f-strings format the dimensions.\<close>

definition digit_char :: "nat \<Rightarrow> char" where
  "digit_char d = ''0123456789'' ! d"

fun str_nat :: "nat \<Rightarrow> string" where
  "str_nat n = (if n < 10 then [digit_char n] else str_nat (n div 10) @ [digit_char (n mod 10)])"

declare str_nat.simps [simp del]

definition str_int :: "int \<Rightarrow> string" where
  "str_int i = (if i < 0 then CHR ''-'' # str_nat (nat (- i)) else str_nat (nat i))"

text \<open>\<open>os.path.basename\<close> (POSIX): what follows the last slash.\<close>

definition basename :: "string \<Rightarrow> string" where
  "basename p = rev (takeWhile (\<lambda>c. c \<noteq> CHR ''/'') (rev p))"

text \<open>\<open>os.path.join\<close> (POSIX) of two components.\<close>

definition path_join :: "string \<Rightarrow> string \<Rightarrow> string" where
  "path_join a b =
     (if b \<noteq> [] \<and> hd b = CHR ''/'' then b
      else if a = [] \<or> last a = CHR ''/'' then a @ b
      else a @ ''/'' @ b)"

section \<open>crop\_transparent\<close>

text \<open>
  Lines 36 to 39 of the script, the padded rectangle clamped to the image:
  \<^verbatim>\<open>
    left = max(0, bbox[0] - padding)
    top = max(0, bbox[1] - padding)
    right = min(orig_w, bbox[2] + padding)
    bottom = min(orig_h, bbox[3] + padding)
  \<close>
\<close>

fun crop_box :: "int \<times> int \<Rightarrow> box \<Rightarrow> int \<Rightarrow> box" where
  "crop_box (orig_w, orig_h) (b0, b1, b2, b3) padding =
     (let left = max 0 (b0 - padding);
          top = max 0 (b1 - padding);
          right = min orig_w (b2 + padding);
          bottom = min orig_h (b3 + padding)
      in (left, top, right, bottom))"

text \<open>
  \<open>crop_transparent(input_path, output_path=None, padding=0)\<close>. The optional
  \<open>output_path\<close> is an \<^typ>\<open>string option\<close>; the caller passes the padding.
\<close>

definition crop_transparent ::
  "('f, 'img) pil \<Rightarrow> string \<Rightarrow> string option \<Rightarrow> int \<Rightarrow> 'f world \<Rightarrow> error + 'f world" where
  "crop_transparent lib input_path output_path_arg padding w =
     (let output_path = (case output_path_arg of None \<Rightarrow> input_path | Some p \<Rightarrow> p) in
      case files w input_path of
        None \<Rightarrow> Inl (FileNotFound input_path)
      | Some content \<Rightarrow>
     (case pil_open lib content of
        None \<Rightarrow> Inl (DecodeError input_path)
      | Some img \<Rightarrow>
     (case pil_getbbox lib img of
        None \<Rightarrow>
          Inr (print_line (''  '' @ input_path @ '': Image is fully transparent, skipping'') w)
      | Some bbox \<Rightarrow>
     (let (orig_w, orig_h) = pil_size lib img;
          rect = crop_box (orig_w, orig_h) bbox padding in
      case pil_crop lib img rect of
        None \<Rightarrow> Inl (CropError rect)
      | Some cropped \<Rightarrow>
     (case pil_save lib cropped output_path of
        None \<Rightarrow> Inl (SaveError output_path)
      | Some written \<Rightarrow>
     (let w' = w\<lparr>files := (files w)(output_path \<mapsto> written)\<rparr>;
          (new_w, new_h) = pil_size lib cropped in
      Inr (print_line
             (''  '' @ basename input_path @ '': '' @ str_int orig_w @ ''x'' @ str_int orig_h
                @ '' -> '' @ str_int new_w @ ''x'' @ str_int new_h)
             w')))))))"

section \<open>main\<close>

definition assets_dir :: string where
  "assets_dir = ''/Users/cayden0207/Desktop/Cursor/Eliza town/assets/ui/stardew''"

definition files_to_crop :: "string list" where
  "files_to_crop = [''checked.png'', ''uncheck.png'', ''tab_normal.png'', ''tab_active.png'']"

text \<open>The body of the \<open>for filename in files_to_crop\<close> loop.\<close>

definition main_body :: "('f, 'img) pil \<Rightarrow> string \<Rightarrow> 'f world \<Rightarrow> error + 'f world" where
  "main_body lib filename w =
     (let filepath = path_join assets_dir filename in
      if path_exists w filepath then crop_transparent lib filepath None 2 w
      else Inr (print_line (''  '' @ filename @ '': File not found, skipping'') w))"

text \<open>The loop itself: an exception in one iteration ends the loop.\<close>

fun main_loop :: "('f, 'img) pil \<Rightarrow> string list \<Rightarrow> 'f world \<Rightarrow> error + 'f world" where
  "main_loop lib [] w = Inr w"
| "main_loop lib (filename # rest) w =
     (case main_body lib filename w of
        Inl e \<Rightarrow> Inl e
      | Inr w' \<Rightarrow> main_loop lib rest w')"

definition main :: "('f, 'img) pil \<Rightarrow> 'f world \<Rightarrow> error + 'f world" where
  "main lib w =
     (let w1 = print_line ''Cropping transparent areas from PNG assets...'' w;
          w2 = print_line [] w1 in
      case main_loop lib files_to_crop w2 of
        Inl e \<Rightarrow> Inl e
      | Inr w3 \<Rightarrow>
          (let w4 = print_line [] w3 in
           Inr (print_line ''Done! Assets have been cropped.'' w4)))"

section \<open>A small instance of the image library\<close>

text \<open>
  To run the model on concrete inputs, an image is reduced to its width, its height and
  the bounding box of its opaque pixels; a file holds such an image, decoding and
  saving never fail, and cropping moves the bounding box with the origin.
\<close>

definition demo_lib :: "(int \<times> int \<times> box option, int \<times> int \<times> box option) pil" where
  "demo_lib =
     \<lparr>pil_open = Some,
      pil_getbbox = (\<lambda>(w, h, bb). bb),
      pil_size = (\<lambda>(w, h, bb). (w, h)),
      pil_crop = (\<lambda>(w, h, bb) (l, t, r, b).
         Some (r - l, b - t, map_option (\<lambda>(x0, y0, x1, y1). (x0 - l, y0 - t, x1 - l, y1 - t)) bb)),
      pil_save = (\<lambda>img p. Some img)\<rparr>"

text \<open>
  A disk on which two of the four assets exist: \<open>uncheck.png\<close> with content inside a
  transparent border, and a fully transparent \<open>tab_active.png\<close>.
\<close>

definition demo_world :: "(int \<times> int \<times> box option) world" where
  "demo_world =
     \<lparr>files = [path_join assets_dir ''tab_active.png'' \<mapsto> (7, 5, None),
               path_join assets_dir ''uncheck.png'' \<mapsto> (100, 50, Some (10, 10, 90, 40))],
      stdout = []\<rparr>"

definition demo_result :: "(int \<times> int \<times> box option) world" where
  "demo_result =
     \<lparr>files = [path_join assets_dir ''tab_active.png'' \<mapsto> (7, 5, None),
               path_join assets_dir ''uncheck.png'' \<mapsto> (84, 34, Some (2, 2, 82, 32))],
      stdout =
        [''Cropping transparent areas from PNG assets...'', [],
         ''  checked.png: File not found, skipping'',
         ''  uncheck.png: 100x50 -> 84x34'',
         ''  tab_normal.png: File not found, skipping'',
         ''  /Users/cayden0207/Desktop/Cursor/Eliza town/assets/ui/stardew/tab_active.png: Image is fully transparent, skipping'',
         [], ''Done! Assets have been cropped.'']\<rparr>"

section \<open>What a call of crop\_transparent does to the world\<close>

lemma crop_transparent_not_FileNotFound:
  "files w input_path \<noteq> None \<Longrightarrow>
   crop_transparent lib input_path out padding w \<noteq> Inl (FileNotFound q)"
  by (auto simp: crop_transparent_def Let_def split: option.splits prod.splits)

lemma crop_transparent_files:
  assumes "crop_transparent lib input_path out padding w = Inr w'"
  shows "files w' = files w \<or>
         (\<exists>written. files w' =
            (files w)((case out of None \<Rightarrow> input_path | Some p \<Rightarrow> p) \<mapsto> written))"
  using assms
  by (auto simp: crop_transparent_def Let_def print_line_def split: option.splits prod.splits)

lemma crop_transparent_stdout:
  assumes "crop_transparent lib input_path out padding w = Inr w'"
  shows "\<exists>line. stdout w' = stdout w @ [line]"
  using assms
  by (auto simp: crop_transparent_def Let_def print_line_def split: option.splits prod.splits)

section \<open>The loop of main\<close>

lemma main_body_not_FileNotFound: "main_body lib filename w \<noteq> Inl (FileNotFound q)"
  by (simp add: main_body_def Let_def path_exists_def crop_transparent_not_FileNotFound)

lemma main_loop_not_FileNotFound: "main_loop lib fs w \<noteq> Inl (FileNotFound q)"
proof (induction fs arbitrary: w)
  case Nil
  show ?case by simp
next
  case (Cons filename rest)
  show ?case
  proof (cases "main_body lib filename w")
    case (Inl e)
    with main_body_not_FileNotFound [of lib filename w q] show ?thesis by auto
  next
    case (Inr w')
    with Cons.IH [of w'] show ?thesis by simp
  qed
qed

text \<open>
  An iteration never creates or removes a file: the only write goes to the path that was
  just found to exist.
\<close>

lemma main_body_exists:
  assumes "main_body lib filename w = Inr w'"
  shows "path_exists w' q = path_exists w q"
proof (cases "path_exists w (path_join assets_dir filename)")
  case True
  with assms have "crop_transparent lib (path_join assets_dir filename) None 2 w = Inr w'"
    by (simp add: main_body_def)
  from crop_transparent_files [OF this] True show ?thesis
    by (auto simp: path_exists_def split: if_splits)
next
  case False
  with assms show ?thesis
    by (auto simp: main_body_def print_line_def path_exists_def)
qed

lemma main_body_stdout:
  assumes "main_body lib filename w = Inr w'"
  shows "\<exists>line. stdout w' = stdout w @ [line]"
proof (cases "path_exists w (path_join assets_dir filename)")
  case True
  with assms have "crop_transparent lib (path_join assets_dir filename) None 2 w = Inr w'"
    by (simp add: main_body_def)
  then show ?thesis by (rule crop_transparent_stdout)
next
  case False
  with assms show ?thesis
    by (auto simp: main_body_def print_line_def)
qed

lemma main_loop_exists:
  "main_loop lib fs w = Inr w' \<Longrightarrow> path_exists w' q = path_exists w q"
proof (induction fs arbitrary: w)
  case Nil
  then show ?case by simp
next
  case (Cons filename rest)
  from Cons.prems obtain w1 where
    b: "main_body lib filename w = Inr w1" and r: "main_loop lib rest w1 = Inr w'"
    by (auto split: sum.splits)
  from Cons.IH [OF r] main_body_exists [OF b] show ?case by simp
qed

text \<open>A run of the loop that returns has printed one line for each file name.\<close>

lemma main_loop_stdout:
  "main_loop lib fs w = Inr w' \<Longrightarrow>
   \<exists>lines. stdout w' = stdout w @ lines \<and> length lines = length fs"
proof (induction fs arbitrary: w)
  case Nil
  then show ?case by simp
next
  case (Cons filename rest)
  from Cons.prems obtain w1 where
    b: "main_body lib filename w = Inr w1" and r: "main_loop lib rest w1 = Inr w'"
    by (auto split: sum.splits)
  from main_body_stdout [OF b] obtain line where l: "stdout w1 = stdout w @ [line]" ..
  from Cons.IH [OF r] obtain lines where
    "stdout w' = stdout w1 @ lines" and "length lines = length rest" by blast
  with l have "stdout w' = stdout w @ (line # lines)
      \<and> length (line # lines) = length (filename # rest)"
    by simp
  then show ?case by blast
qed

lemma main_loop_reports_missing:
  assumes "filename \<in> set fs"
    and "\<not> path_exists w (path_join assets_dir filename)"
    and "main_loop lib fs w = Inr w'"
  shows "''  '' @ filename @ '': File not found, skipping'' \<in> set (stdout w')"
  using assms
proof (induction fs arbitrary: w)
  case Nil
  then show ?case by simp
next
  case (Cons f rest)
  from Cons.prems(3) obtain w1 where
    b: "main_body lib f w = Inr w1" and r: "main_loop lib rest w1 = Inr w'"
    by (auto split: sum.splits)
  show ?case
  proof (cases "filename = f")
    case True
    with Cons.prems(2) b
    have "stdout w1 = stdout w @ [''  '' @ filename @ '': File not found, skipping'']"
      by (auto simp: main_body_def print_line_def)
    moreover from main_loop_stdout [OF r] obtain lines where "stdout w' = stdout w1 @ lines"
      by blast
    ultimately show ?thesis by simp
  next
    case False
    with Cons.prems(1) have "filename \<in> set rest" by simp
    moreover from main_body_exists [OF b] Cons.prems(2)
    have "\<not> path_exists w1 (path_join assets_dir filename)" by simp
    ultimately show ?thesis using r by (rule Cons.IH)
  qed
qed

lemma main_stdout_set:
  assumes "main lib w = Inr w'"
  shows "\<exists>w2 w3. main_loop lib files_to_crop w2 = Inr w3 \<and> files w2 = files w
           \<and> set (stdout w3) \<subseteq> set (stdout w')"
proof -
  let ?w2 = "print_line [] (print_line ''Cropping transparent areas from PNG assets...'' w)"
  from assms obtain w3 where
    l: "main_loop lib files_to_crop ?w2 = Inr w3"
    and e: "w' = print_line ''Done! Assets have been cropped.'' (print_line [] w3)"
    by (auto simp: main_def Let_def split: sum.splits)
  have "files ?w2 = files w" by (simp add: print_line_def)
  moreover from e have "set (stdout w3) \<subseteq> set (stdout w')" by (auto simp: print_line_def)
  ultimately show ?thesis using l by blast
qed

text \<open>The whole program on the small disk: two files skipped as missing, one cropped
  in place, one skipped as fully transparent.\<close>

lemma main_demo: "main demo_lib demo_world = Inr demo_result"
  by (simp add: main_def files_to_crop_def main_body_def path_exists_def crop_transparent_def
      demo_lib_def demo_world_def demo_result_def print_line_def Let_def path_join_def
      assets_dir_def basename_def str_int_def str_nat.simps digit_char_def)

section \<open>The crop rectangle\<close>

text \<open>
  C1: when the image has a bounding box \<open>(bx0, by0, bx1, by1)\<close> and size \<open>W\<close> by \<open>H\<close>,
  the rectangle computed for padding \<open>P\<close> is
  \<open>(max 0 (bx0 - P), max 0 (by0 - P), min W (bx1 + P), min H (by1 + P))\<close>, and it is
  this rectangle that \<open>crop_transparent\<close> hands to the library's crop, whose result it
  saves at the output path. The formulas hold for every integer \<open>P\<close>, the non-negative
  ones included.
\<close>

theorem crop_transparent_rectangle:
  assumes "files w input_path = Some content"
    and "pil_open lib content = Some img"
    and "pil_getbbox lib img = Some (bx0, by0, bx1, by1)"
    and "pil_size lib img = (W, H)"
    and "output_path = (case out of None \<Rightarrow> input_path | Some p \<Rightarrow> p)"
    and "rect = (max 0 (bx0 - P), max 0 (by0 - P), min W (bx1 + P), min H (by1 + P))"
  shows "crop_box (W, H) (bx0, by0, bx1, by1) P = rect
       \<and> crop_transparent lib input_path out P w =
           (case pil_crop lib img rect of
              None \<Rightarrow> Inl (CropError rect)
            | Some cropped \<Rightarrow>
               (case pil_save lib cropped output_path of
                  None \<Rightarrow> Inl (SaveError output_path)
                | Some written \<Rightarrow>
                    Inr (print_line
                          (''  '' @ basename input_path @ '': '' @ str_int W @ ''x'' @ str_int H
                             @ '' -> '' @ str_int (fst (pil_size lib cropped)) @ ''x''
                             @ str_int (snd (pil_size lib cropped)))
                          (w\<lparr>files := (files w)(output_path \<mapsto> written)\<rparr>))))"
  using assms
  by (simp add: crop_transparent_def Let_def split: option.splits prod.splits)

theorem crop_transparent_rectangle_witness:
  "crop_box (100, 50) (10, 10, 90, 40) 2 = (8, 8, 92, 42)
   \<and> crop_transparent demo_lib ''ui/a.png'' None 2
       \<lparr>files = [''ui/a.png'' \<mapsto> (100, 50, Some (10, 10, 90, 40))], stdout = []\<rparr>
     = Inr \<lparr>files = [''ui/a.png'' \<mapsto> (84, 34, Some (2, 2, 82, 32))],
            stdout = [''  a.png: 100x50 -> 84x34'']\<rparr>"
  using crop_transparent_rectangle
    [of "\<lparr>files = [''ui/a.png'' \<mapsto> (100, 50, Some (10, 10, 90, 40))], stdout = []\<rparr>"
        "''ui/a.png''" "(100, 50, Some (10, 10, 90, 40))" demo_lib
        "(100, 50, Some (10, 10, 90, 40))" 10 10 90 40 100 50 "''ui/a.png''" None
        "(8, 8, 92, 42)" 2]
  by (simp add: demo_lib_def print_line_def basename_def str_int_def str_nat.simps digit_char_def)

text \<open>
  C2: for a bounding box inside the image, \<open>0 \<le> bx0 \<le> bx1 \<le> W\<close> and
  \<open>0 \<le> by0 \<le> by1 \<le> H\<close>, and a padding \<open>P \<ge> 0\<close>, the rectangle \<open>(l, t, r, b)\<close> lies
  inside the image, keeps \<open>l \<le> r\<close> and \<open>t \<le> b\<close>, and contains the bounding box.
\<close>

theorem crop_box_within_bounds:
  assumes "0 \<le> bx0" and "bx0 \<le> bx1" and "bx1 \<le> W"
    and "0 \<le> by0" and "by0 \<le> by1" and "by1 \<le> H"
    and "0 \<le> P"
    and "crop_box (W, H) (bx0, by0, bx1, by1) P = (l, t, r, b)"
  shows "0 \<le> l \<and> l \<le> r \<and> r \<le> W \<and> 0 \<le> t \<and> t \<le> b \<and> b \<le> H
       \<and> l \<le> bx0 \<and> t \<le> by0 \<and> bx1 \<le> r \<and> by1 \<le> b"
  using assms by (auto simp: Let_def)

theorem crop_box_within_bounds_witness:
  "(0::int) \<le> 10 \<and> (10::int) \<le> 90 \<and> (90::int) \<le> 100 \<and> (10::int) \<le> 40 \<and> (40::int) \<le> 50
   \<and> (0::int) \<le> 2 \<and> crop_box (100, 50) (10, 10, 90, 40) 2 = (8, 8, 92, 42)
   \<and> (0::int) \<le> 8 \<and> (8::int) \<le> 92 \<and> (92::int) \<le> 100 \<and> (8::int) \<le> 42 \<and> (42::int) \<le> 50
   \<and> (8::int) \<le> 10 \<and> (90::int) \<le> 92 \<and> (40::int) \<le> 42"
  using crop_box_within_bounds [of 10 90 100 10 40 50 2 8 8 92 42]
  by simp

text \<open>
  C5: when the bounding box is the whole image, \<open>(0, 0, W, H)\<close>, the rectangle computed
  for any padding \<open>P \<ge> 0\<close> is again \<open>(0, 0, W, H)\<close>: nothing is cut off a tightly
  cropped image.
\<close>

theorem crop_box_full_image:
  "0 \<le> P \<Longrightarrow> crop_box (W, H) (0, 0, W, H) P = (0, 0, W, H)"
  by (simp add: Let_def)

theorem crop_box_full_image_witness:
  "(0::int) \<le> 2 \<and> crop_box (100, 50) (0, 0, 100, 50) 2 = (0, 0, 100, 50)"
  using crop_box_full_image [of 2 100 50] by simp

text \<open>
  More generally the rectangle is the whole image as soon as no margin exceeds the
  padding, which is the state a first pass leaves behind: with the bounding box moved to
  the new origin, a second pass with the same padding keeps the whole cropped image.
\<close>

lemma crop_box_margin_le_padding:
  "bx0 \<le> P \<Longrightarrow> by0 \<le> P \<Longrightarrow> W - bx1 \<le> P \<Longrightarrow> H - by1 \<le> P \<Longrightarrow>
   crop_box (W, H) (bx0, by0, bx1, by1) P = (0, 0, W, H)"
  by (simp add: Let_def)

lemma crop_box_rerun:
  assumes "crop_box (W, H) (bx0, by0, bx1, by1) P = (l, t, r, b)"
  shows "crop_box (r - l, b - t) (bx0 - l, by0 - t, bx1 - l, by1 - t) P = (0, 0, r - l, b - t)"
  using assms by (auto simp: Let_def)

text \<open>
  C6: with padding \<open>0\<close> and a bounding box inside the image, the rectangle is the
  bounding box itself.
\<close>

theorem crop_box_no_padding:
  assumes "0 \<le> bx0" and "bx0 \<le> bx1" and "bx1 \<le> W"
    and "0 \<le> by0" and "by0 \<le> by1" and "by1 \<le> H"
  shows "crop_box (W, H) (bx0, by0, bx1, by1) 0 = (bx0, by0, bx1, by1)"
  using assms by (simp add: Let_def)

theorem crop_box_no_padding_witness:
  "(0::int) \<le> 10 \<and> (10::int) \<le> 90 \<and> (90::int) \<le> 100 \<and> (10::int) \<le> 40 \<and> (40::int) \<le> 50
   \<and> crop_box (100, 50) (10, 10, 90, 40) 0 = (10, 10, 90, 40)"
  using crop_box_no_padding [of 10 90 100 10 40 50] by simp

text \<open>
  C7: a bounding box that touches the left edge, \<open>bx0 = 0\<close>, with a padding \<open>P > 0\<close>
  gives \<open>left = 0\<close>; and whatever the inputs, the left offset is never negative.
\<close>

theorem crop_box_left_edge:
  "(0 < P \<longrightarrow> fst (crop_box (W, H) (0, by0, bx1, by1) P) = 0)
   \<and> 0 \<le> fst (crop_box (W, H) (bx0, by0, bx1, by1) P)"
  by (simp add: Let_def)

theorem crop_box_left_edge_witness:
  "(0::int) < 2 \<and> fst (crop_box (100, 50) (0, 10, 90, 40) 2) = 0"
  using crop_box_left_edge [of 2 100 50 10 90 40 0] by simp

text \<open>
  C8: the two scenarios of the specification. An image of 100 by 50 with bounding box
  \<open>(10, 10, 90, 40)\<close> and padding 2 gives \<open>(8, 8, 92, 42)\<close>; with the bounding box
  \<open>(0, 0, 100, 50)\<close> it gives \<open>(0, 0, 100, 50)\<close>.
\<close>

theorem crop_box_scenarios:
  "crop_box (100, 50) (10, 10, 90, 40) 2 = (8, 8, 92, 42)
   \<and> crop_box (100, 50) (0, 0, 100, 50) 2 = (0, 0, 100, 50)"
  by (simp add: Let_def)

text \<open>
  C9: the rectangle grows with the padding. For \<open>P1 \<le> P2\<close> the rectangle of \<open>P1\<close>
  lies inside the rectangle of \<open>P2\<close>: left and top do not increase, right and bottom
  do not decrease. This needs neither \<open>0 \<le> P1\<close> nor a bounding box inside the image, so
  it holds in particular for the well-formed boxes and paddings \<open>0 \<le> P1 \<le> P2\<close>.
\<close>

theorem crop_box_mono_padding:
  assumes "P1 \<le> P2"
    and "crop_box (W, H) (bx0, by0, bx1, by1) P1 = (l1, t1, r1, b1)"
    and "crop_box (W, H) (bx0, by0, bx1, by1) P2 = (l2, t2, r2, b2)"
  shows "l2 \<le> l1 \<and> t2 \<le> t1 \<and> r1 \<le> r2 \<and> b1 \<le> b2"
  using assms by (auto simp: Let_def)

theorem crop_box_mono_padding_witness:
  "(1::int) \<le> 4 \<and> crop_box (100, 50) (3, 10, 90, 48) 1 = (2, 9, 91, 49)
   \<and> crop_box (100, 50) (3, 10, 90, 48) 4 = (0, 6, 94, 50)
   \<and> (0::int) \<le> 2 \<and> (6::int) \<le> 9 \<and> (91::int) \<le> 94 \<and> (49::int) \<le> 50"
  using crop_box_mono_padding [of 1 4 100 50 3 10 90 48 2 9 91 49 0 6 94 50] by simp

section \<open>Skipped files\<close>

text \<open>
  C3: when the file opens and the library finds no bounding box (every pixel is fully
  transparent), \<open>crop_transparent\<close> returns normally, the files on disk are as before,
  and the only effect is the printed line that reports the skip.
\<close>

theorem transparent_image_skipped:
  assumes "files w input_path = Some content"
    and "pil_open lib content = Some img"
    and "pil_getbbox lib img = None"
  shows "crop_transparent lib input_path out padding w =
           Inr (w\<lparr>stdout := stdout w @
                  [''  '' @ input_path @ '': Image is fully transparent, skipping'']\<rparr>)"
  using assms by (simp add: crop_transparent_def Let_def print_line_def)

theorem transparent_image_skipped_witness:
  "crop_transparent demo_lib ''ui/blank.png'' None 2
       \<lparr>files = [''ui/blank.png'' \<mapsto> (7, 5, None)], stdout = []\<rparr>
     = Inr \<lparr>files = [''ui/blank.png'' \<mapsto> (7, 5, None)],
            stdout = [''  ui/blank.png: Image is fully transparent, skipping'']\<rparr>"
  using transparent_image_skipped
    [of "\<lparr>files = [''ui/blank.png'' \<mapsto> (7, 5, None)], stdout = []\<rparr>"
        "''ui/blank.png''" "(7, 5, None)" demo_lib "(7, 5, None)" None 2]
  by (simp add: demo_lib_def)

text \<open>
  C4: when the path of a configured file does not exist, the loop prints the skip line
  for it and goes on with the remaining files; the program never ends with a
  file-not-found error; and whenever the program returns, the skip line of every
  configured file that was missing at the start is in its output.
\<close>

theorem missing_file_skipped:
  "(\<not> path_exists w (path_join assets_dir filename) \<longrightarrow>
      main_loop lib (filename # rest) w =
        main_loop lib rest
          (w\<lparr>stdout := stdout w @ [''  '' @ filename @ '': File not found, skipping'']\<rparr>))
   \<and> main lib w \<noteq> Inl (FileNotFound p)
   \<and> (filename \<in> set files_to_crop \<and> \<not> path_exists w (path_join assets_dir filename)
        \<and> main lib w = Inr w' \<longrightarrow>
      ''  '' @ filename @ '': File not found, skipping'' \<in> set (stdout w'))"
proof (intro conjI impI)
  assume "\<not> path_exists w (path_join assets_dir filename)"
  then show "main_loop lib (filename # rest) w =
        main_loop lib rest
          (w\<lparr>stdout := stdout w @ [''  '' @ filename @ '': File not found, skipping'']\<rparr>)"
    by (simp add: main_body_def print_line_def)
next
  show "main lib w \<noteq> Inl (FileNotFound p)"
    using main_loop_not_FileNotFound [of lib files_to_crop _ p]
    by (auto simp: main_def Let_def split: sum.splits)
next
  assume a: "filename \<in> set files_to_crop \<and> \<not> path_exists w (path_join assets_dir filename)
        \<and> main lib w = Inr w'"
  from main_stdout_set [of lib w w'] a obtain w2 w3 where
    l: "main_loop lib files_to_crop w2 = Inr w3" and f: "files w2 = files w"
    and s: "set (stdout w3) \<subseteq> set (stdout w')" by blast
  from a f have "\<not> path_exists w2 (path_join assets_dir filename)"
    by (simp add: path_exists_def)
  with a l have "''  '' @ filename @ '': File not found, skipping'' \<in> set (stdout w3)"
    using main_loop_reports_missing [of filename files_to_crop w2 lib w3] by simp
  with s show "''  '' @ filename @ '': File not found, skipping'' \<in> set (stdout w')" by blast
qed

theorem missing_file_skipped_witness:
  "\<not> path_exists demo_world (path_join assets_dir ''tab_normal.png'')
   \<and> ''tab_normal.png'' \<in> set files_to_crop
   \<and> main demo_lib demo_world = Inr demo_result
   \<and> main_loop demo_lib [''tab_normal.png'', ''tab_active.png''] demo_world =
       main_loop demo_lib [''tab_active.png'']
         (demo_world\<lparr>stdout := stdout demo_world @ [''  tab_normal.png: File not found, skipping'']\<rparr>)
   \<and> ''  tab_normal.png: File not found, skipping'' \<in> set (stdout demo_result)"
proof -
  have h1: "\<not> path_exists demo_world (path_join assets_dir ''tab_normal.png'')"
    by (simp add: path_exists_def demo_world_def path_join_def assets_dir_def)
  have h2: "''tab_normal.png'' \<in> set files_to_crop"
    by (simp add: files_to_crop_def)
  note t = missing_file_skipped
    [of demo_world "''tab_normal.png''" demo_lib "[''tab_active.png'']" "[]" demo_result]
  from t h1 h2 main_demo show ?thesis by simp
qed

section \<open>The files main works on\<close>

text \<open>
  C10: \<open>main\<close> runs the loop body on \<open>checked.png\<close>, \<open>uncheck.png\<close>,
  \<open>tab_normal.png\<close> and \<open>tab_active.png\<close>, in this order, between its header and
  its closing lines. For a file that exists the body is the call of
  \<open>crop_transparent\<close> on its path with no output path and padding 2. With no output
  path the call is the one with the input path as output path: no other file changes,
  and when the image is cropped and saved the file at the input path holds what was
  saved.
\<close>

theorem main_crops_four_files_in_place:
  "main lib w =
     (case main_body lib ''checked.png''
             (print_line [] (print_line ''Cropping transparent areas from PNG assets...'' w)) of
        Inl e \<Rightarrow> Inl e
      | Inr wa \<Rightarrow>
     (case main_body lib ''uncheck.png'' wa of
        Inl e \<Rightarrow> Inl e
      | Inr wb \<Rightarrow>
     (case main_body lib ''tab_normal.png'' wb of
        Inl e \<Rightarrow> Inl e
      | Inr wc \<Rightarrow>
     (case main_body lib ''tab_active.png'' wc of
        Inl e \<Rightarrow> Inl e
      | Inr wd \<Rightarrow> Inr (print_line ''Done! Assets have been cropped.'' (print_line [] wd))))))
   \<and> (path_exists w (path_join assets_dir filename) \<longrightarrow>
        main_body lib filename w = crop_transparent lib (path_join assets_dir filename) None 2 w)
   \<and> crop_transparent lib input_path None padding w =
       crop_transparent lib input_path (Some input_path) padding w
   \<and> (crop_transparent lib input_path None padding w = Inr w' \<and> q \<noteq> input_path \<longrightarrow>
        files w' q = files w q)
   \<and> (files w input_path = Some content \<and> pil_open lib content = Some img
        \<and> pil_getbbox lib img = Some bbox
        \<and> pil_crop lib img (crop_box (pil_size lib img) bbox padding) = Some cropped
        \<and> pil_save lib cropped input_path = Some written \<longrightarrow>
      (\<exists>w''. crop_transparent lib input_path None padding w = Inr w''
         \<and> files w'' = (files w)(input_path \<mapsto> written)))"
proof (intro conjI impI)
  show "main lib w =
     (case main_body lib ''checked.png''
             (print_line [] (print_line ''Cropping transparent areas from PNG assets...'' w)) of
        Inl e \<Rightarrow> Inl e
      | Inr wa \<Rightarrow>
     (case main_body lib ''uncheck.png'' wa of
        Inl e \<Rightarrow> Inl e
      | Inr wb \<Rightarrow>
     (case main_body lib ''tab_normal.png'' wb of
        Inl e \<Rightarrow> Inl e
      | Inr wc \<Rightarrow>
     (case main_body lib ''tab_active.png'' wc of
        Inl e \<Rightarrow> Inl e
      | Inr wd \<Rightarrow> Inr (print_line ''Done! Assets have been cropped.'' (print_line [] wd))))))"
    by (simp add: main_def files_to_crop_def Let_def split: sum.splits)
next
  assume "path_exists w (path_join assets_dir filename)"
  then show "main_body lib filename w =
      crop_transparent lib (path_join assets_dir filename) None 2 w"
    by (simp add: main_body_def)
next
  show "crop_transparent lib input_path None padding w =
       crop_transparent lib input_path (Some input_path) padding w"
    by (simp add: crop_transparent_def)
next
  assume a: "crop_transparent lib input_path None padding w = Inr w' \<and> q \<noteq> input_path"
  then have "crop_transparent lib input_path None padding w = Inr w'" by simp
  from crop_transparent_files [OF this] a show "files w' q = files w q" by auto
next
  assume "files w input_path = Some content \<and> pil_open lib content = Some img
        \<and> pil_getbbox lib img = Some bbox
        \<and> pil_crop lib img (crop_box (pil_size lib img) bbox padding) = Some cropped
        \<and> pil_save lib cropped input_path = Some written"
  then show "\<exists>w''. crop_transparent lib input_path None padding w = Inr w''
         \<and> files w'' = (files w)(input_path \<mapsto> written)"
    by (auto simp: crop_transparent_def Let_def print_line_def split: prod.splits)
qed

theorem main_crops_four_files_in_place_witness:
  "path_exists demo_world (path_join assets_dir ''uncheck.png'')
   \<and> main_body demo_lib ''uncheck.png'' demo_world =
       crop_transparent demo_lib (path_join assets_dir ''uncheck.png'') None 2 demo_world
   \<and> crop_transparent demo_lib (path_join assets_dir ''uncheck.png'') None 2 demo_world =
       Inr \<lparr>files = [path_join assets_dir ''tab_active.png'' \<mapsto> (7, 5, None),
                     path_join assets_dir ''uncheck.png'' \<mapsto> (84, 34, Some (2, 2, 82, 32))],
            stdout = [''  uncheck.png: 100x50 -> 84x34'']\<rparr>
   \<and> path_join assets_dir ''tab_active.png'' \<noteq> path_join assets_dir ''uncheck.png''
   \<and> files demo_world (path_join assets_dir ''uncheck.png'') = Some (100, 50, Some (10, 10, 90, 40))
   \<and> pil_open demo_lib (100, 50, Some (10, 10, 90, 40)) = Some (100, 50, Some (10, 10, 90, 40))
   \<and> pil_getbbox demo_lib (100, 50, Some (10, 10, 90, 40)) = Some (10, 10, 90, 40)
   \<and> pil_crop demo_lib (100, 50, Some (10, 10, 90, 40))
        (crop_box (pil_size demo_lib (100, 50, Some (10, 10, 90, 40))) (10, 10, 90, 40) 2)
       = Some (84, 34, Some (2, 2, 82, 32))
   \<and> pil_save demo_lib (84, 34, Some (2, 2, 82, 32)) (path_join assets_dir ''uncheck.png'')
       = Some (84, 34, Some (2, 2, 82, 32))"
  using main_crops_four_files_in_place
    [of demo_lib demo_world "''uncheck.png''" "path_join assets_dir ''uncheck.png''" 2
        "\<lparr>files = [path_join assets_dir ''tab_active.png'' \<mapsto> (7, 5, None),
                     path_join assets_dir ''uncheck.png'' \<mapsto> (84, 34, Some (2, 2, 82, 32))],
            stdout = [''  uncheck.png: 100x50 -> 84x34'']\<rparr>"
        "path_join assets_dir ''tab_active.png''"
        "(100, 50, Some (10, 10, 90, 40))" "(100, 50, Some (10, 10, 90, 40))"
        "(10, 10, 90, 40)" "(84, 34, Some (2, 2, 82, 32))" "(84, 34, Some (2, 2, 82, 32))",
      THEN conjunct2]
  by (simp add: main_body_def path_exists_def crop_transparent_def
      demo_lib_def demo_world_def print_line_def Let_def path_join_def
      assets_dir_def basename_def str_int_def str_nat.simps digit_char_def)

end
